theory Spec2Isabelle
  imports Complex_Main
begin

section \<open>Numbers, strings and arrays of the source language\<close>

text \<open>
  The geometry utilities are TypeScript. Their numbers are modelled as reals: every
  coordinate is a finite number. The angle and formatting arithmetic is exact; the two
  operations on the running distance (\<open>cumulativeDistance += segmentLength\<close> and
  \<open>cumulativeDistance - segmentLength\<close>) are rounded to binary64, since what the distances
  satisfy depends on that rounding. Strings are lists of code units; every character the
  utilities produce lies below 256, so one \<open>char\<close> stands for one code unit. A value
  that may be \<open>undefined\<close> or \<open>null\<close> is an \<open>option\<close>.
\<close>

text \<open>Reading \<open>xs[i]\<close>: out of range the result is \<open>undefined\<close>.\<close>

definition js_nth :: "'a list \<Rightarrow> nat \<Rightarrow> 'a option" where
  "js_nth xs i = (if i < length xs then Some (xs ! i) else None)"

text \<open>
  The remainder operator \<open>a % n\<close>: the quotient is truncated towards zero, so the result
  has the sign of \<open>a\<close>. The only divisor in the source is 360.
\<close>

definition js_rem :: "real \<Rightarrow> real \<Rightarrow> real" where
  "js_rem a n = a - n * of_int (if a / n < 0 then \<lceil>a / n\<rceil> else \<lfloor>a / n\<rfloor>)"

text \<open>
  The result of one arithmetic operation on numbers: the exact result rounded to the nearest
  binary64 value, ties to the even significand. A value of binary exponent \<open>e\<close> is a
  multiple of \<open>2^(e - 52)\<close>; below \<open>2^-1022\<close> the spacing stays \<open>2^-1074\<close>. Results of
  magnitude \<open>2^1024\<close> and more (the source's \<open>Infinity\<close>) are outside the model.
\<close>

definition roundHalfEven :: "real \<Rightarrow> int" where
  "roundHalfEven r =
     (let f = \<lfloor>r\<rfloor>; d = r - of_int f
      in if d < 1 / 2 then f
         else if 1 / 2 < d then f + 1
         else if even f then f else f + 1)"

definition binary64 :: "real \<Rightarrow> real" where
  "binary64 x =
     (if x = 0 then 0
      else let e = max \<lfloor>log 2 \<bar>x\<bar>\<rfloor> (- 1022);
               ulp = 2 powi (e - 52)
           in of_int (roundHalfEven (x / ulp)) * ulp)"

text \<open>
  \<open>Math.atan2(y, x)\<close>: the angle of the point \<open>(x, y)\<close>, in \<open>[-pi, pi]\<close>; at the
  origin it is 0. (A real has no negative zero, so the angle on the negative x axis is
  \<open>pi\<close>.)
\<close>

definition Math_atan2 :: "real \<Rightarrow> real \<Rightarrow> real" where
  "Math_atan2 y x =
     (if 0 < x then arctan (y / x)
      else if x < 0 then (if 0 \<le> y then arctan (y / x) + pi else arctan (y / x) - pi)
      else if 0 < y then pi / 2
      else if y < 0 then - (pi / 2)
      else 0)"

text \<open>
  A template literal \<open>${k}\<close> of an integral number: its decimal digits, with a minus sign
  when negative (the notation of every integral number of magnitude below \<open>10^21\<close>).
\<close>

definition digitChar :: "nat \<Rightarrow> char" where
  "digitChar d = ''0123456789'' ! d"

fun natDigits :: "nat \<Rightarrow> string" where
  "natDigits n =
     (if n < 10 then [digitChar n]
      else natDigits (n div 10) @ [digitChar (n mod 10)])"

declare natDigits.simps [simp del]

definition numberToString :: "int \<Rightarrow> string" where
  "numberToString k = (if k < 0 then CHR ''-'' # natDigits (nat (- k)) else natDigits (nat k))"

section \<open>Geometries and the geometry engine\<close>

text \<open>
  A point of a path is a coordinate array read at positions 0 and 1. A polyline has a list
  of paths, a polygon a list of rings; the spatial reference is an opaque token. An entry
  of a ring built by \<open>buildRowPolygon\<close> may be \<open>undefined\<close> (the read \<open>leftPath[0]\<close>
  of an empty path).
\<close>

type_synonym point = "real \<times> real"

type_synonym spatialRef = nat

record polyline =
  paths :: "point list list"
  spatialReference :: spatialRef

record polygon =
  rings :: "point option list list"
  polygonSpatialReference :: spatialRef

datatype geometry = PolylineG polyline | PolygonG polygon

text \<open>
  \<open>geometryEngine\<close> is the host's library, not part of the repository: its three
  functions are parameters, with the arguments they are called with. \<open>offset\<close> returns
  no line (\<open>None\<close>, the source's \<open>null\<close>) when it fails. Each call returns a value of
  its own: the two offset lines share no array.
\<close>

record geometryEngine =
  offset :: "polyline \<Rightarrow> real \<Rightarrow> string \<Rightarrow> string \<Rightarrow> polyline option"
  geodesicLength :: "geometry \<Rightarrow> string \<Rightarrow> real"
  geodesicArea :: "polygon \<Rightarrow> string \<Rightarrow> real"

section \<open>Bearings in degrees, minutes and seconds\<close>

text \<open>
  \<open>decimalToDMS\<close>: three floors, then the template literal. In the source file the
  literal holds the two characters U+00C2 U+00B0 between the degrees and the first space.
\<close>

definition dmsParts :: "real \<Rightarrow> int \<times> int \<times> int" where
  "dmsParts decimal =
     (let degrees = \<lfloor>decimal\<rfloor>;
          minutesDecimal = (decimal - of_int degrees) * 60;
          minutes = \<lfloor>minutesDecimal\<rfloor>;
          seconds = \<lfloor>(minutesDecimal - of_int minutes) * 60\<rfloor>
      in (degrees, minutes, seconds))"

definition decimalToDMS :: "real \<Rightarrow> string" where
  "decimalToDMS decimal =
     (case dmsParts decimal of (degrees, minutes, seconds) \<Rightarrow>
        numberToString degrees @ [CHR 0xC2, CHR 0xB0] @ '' '' @
        numberToString minutes @ [CHR 0x27] @ '' '' @
        numberToString seconds @ [CHR 0x22])"

section \<open>Vertex analytics\<close>

text \<open>The fields \<open>index\<close>, \<open>x\<close> and \<open>y\<close> are \<open>vIndex\<close>, \<open>vX\<close> and \<open>vY\<close> here.\<close>

record VertexInfo =
  vIndex :: nat
  vX :: real
  vY :: real
  bearing :: real
  bearingDMS :: string
  bendAngle :: real
  bendDirection :: string
  segmentLength :: real
  distanceFromStart :: real

text \<open>
  The expression \<open>(Math.atan2(dx, dy) * 180 / Math.PI + 360) % 360\<close>, written three
  times in the loop body.
\<close>

definition azimuth :: "real \<Rightarrow> real \<Rightarrow> real" where
  "azimuth dx dy = js_rem (Math_atan2 dx dy * 180 / pi + 360) 360"

text \<open>The deflection: the difference of the two bearings after the two corrections.\<close>

definition deflectionOf :: "real \<Rightarrow> real \<Rightarrow> real" where
  "deflectionOf bearing1 bearing2 =
     (let deflection = bearing2 - bearing1;
          deflection = (if deflection > 180 then deflection - 360 else deflection);
          deflection = (if deflection < - 180 then deflection + 360 else deflection)
      in deflection)"

text \<open>
  One pass of the loop body at index \<open>i\<close>, which the loop runs for \<open>i\<close> below the length
  of the path: the record pushed and the cumulative distance after the pass. The initial
  values are bearing 0, segment length 0, bend angle 0 and direction \<open>N/A\<close>.
\<close>

definition vertexAt ::
  "geometryEngine \<Rightarrow> polyline \<Rightarrow> point list \<Rightarrow> nat \<Rightarrow> real \<Rightarrow> VertexInfo \<times> real" where
  "vertexAt ge pl path i cumulativeDistance =
     (let current = path ! i;
          prev = (if 0 < i then js_nth path (i - 1) else None);
          next = (if int i < int (length path) - 1 then js_nth path (i + 1) else None);
          (bearing0, segmentLength0, cumulativeDistance1) =
            (case next of
               None \<Rightarrow> (0, 0, cumulativeDistance)
             | Some nx \<Rightarrow>
                 let dx = fst nx - fst current;
                     dy = snd nx - snd current;
                     len = geodesicLength ge
                       (PolylineG \<lparr>paths = [[current, nx]],
                                   spatialReference = spatialReference pl\<rparr>) ''meters''
                 in (azimuth dx dy, len, binary64 (cumulativeDistance + len)));
          (bendAngle0, bendDirection0) =
            (case (prev, next) of
               (Some pv, Some nx) \<Rightarrow>
                 let bearing1 = azimuth (fst current - fst pv) (snd current - snd pv);
                     bearing2 = azimuth (fst nx - fst current) (snd nx - snd current);
                     deflection = deflectionOf bearing1 bearing2
                 in (\<bar>deflection\<bar>,
                     if \<bar>deflection\<bar> > 1
                     then (if deflection > 0 then ''Left'' else ''Right'')
                     else ''Straight'')
             | _ \<Rightarrow>
                 if i = 0 then (0, ''Start'')
                 else if int i = int (length path) - 1 then (0, ''End'')
                 else (0, ''N/A''))
      in (\<lparr>vIndex = i, vX = fst current, vY = snd current,
            bearing = bearing0, bearingDMS = decimalToDMS bearing0,
            bendAngle = bendAngle0, bendDirection = bendDirection0,
            segmentLength = segmentLength0,
            distanceFromStart =
              (if i = 0 then 0 else binary64 (cumulativeDistance1 - segmentLength0))\<rparr>,
          cumulativeDistance1))"

function analyticsLoop ::
  "geometryEngine \<Rightarrow> polyline \<Rightarrow> point list \<Rightarrow> nat \<Rightarrow> real \<Rightarrow> VertexInfo list
     \<Rightarrow> VertexInfo list" where
  "analyticsLoop ge pl path i cumulativeDistance vertices =
     (if i < length path
      then analyticsLoop ge pl path (i + 1)
             (snd (vertexAt ge pl path i cumulativeDistance))
             (vertices @ [fst (vertexAt ge pl path i cumulativeDistance)])
      else vertices)"
  by pat_completeness auto
termination
  by (relation "measure (\<lambda>(ge, pl, path, i, c, vs). length path - i)") auto

declare analyticsLoop.simps [simp del]

definition computeVertexAnalytics :: "geometryEngine \<Rightarrow> polyline \<Rightarrow> VertexInfo list" where
  "computeVertexAnalytics ge pl =
     (case js_nth (paths pl) 0 of
        None \<Rightarrow> []
      | Some path \<Rightarrow>
          if length path < 2 then [] else analyticsLoop ge pl path 0 0 [])"

section \<open>The right-of-way polygon\<close>

datatype error = OffsetFailure | TypeError

text \<open>
  \<open>buildRowPolygon\<close>: both offsets are computed, then tested, and the test raises the
  error "Failed to create offset lines" (\<open>OffsetFailure\<close>). Spreading a missing path
  (\<open>paths[0]\<close> of a line without paths) raises a \<open>TypeError\<close>. The ring is the left
  path, the right path reversed and \<open>leftPath[0]\<close>.
\<close>

definition buildRowPolygon ::
  "geometryEngine \<Rightarrow> polyline \<Rightarrow> real \<Rightarrow> real \<Rightarrow> error + polygon" where
  "buildRowPolygon ge centerline leftWidth rightWidth =
     (let leftOffset = offset ge centerline leftWidth ''meters'' ''miter'';
          rightOffset = offset ge centerline (- rightWidth) ''meters'' ''miter''
      in case (leftOffset, rightOffset) of
           (Some lo, Some ro) \<Rightarrow>
             (case (js_nth (paths lo) 0, js_nth (paths ro) 0) of
                (Some leftPath, Some rightPath) \<Rightarrow>
                  Inr \<lparr>rings = [map Some leftPath @ map Some (rev rightPath)
                                  @ [js_nth leftPath 0]],
                       polygonSpatialReference = spatialReference centerline\<rparr>
              | _ \<Rightarrow> Inl TypeError)
         | _ \<Rightarrow> Inl OffsetFailure)"

section \<open>Measurements\<close>

definition calculateArea :: "geometryEngine \<Rightarrow> polygon \<Rightarrow> real" where
  "calculateArea ge pg = geodesicArea ge pg ''square-meters''"

definition calculatePerimeter :: "geometryEngine \<Rightarrow> polygon \<Rightarrow> real" where
  "calculatePerimeter ge pg = geodesicLength ge (PolygonG pg) ''meters''"

section \<open>The cumulative distance on entry to a pass\<close>

text \<open>
  The value of \<open>cumulativeDistance\<close> when the loop enters pass \<open>i\<close>, having started
  from 0: it names the loop's state in the statements below.
\<close>

fun cumulativeAt :: "geometryEngine \<Rightarrow> polyline \<Rightarrow> point list \<Rightarrow> nat \<Rightarrow> real" where
  "cumulativeAt ge pl path 0 = 0"
| "cumulativeAt ge pl path (Suc i) = snd (vertexAt ge pl path i (cumulativeAt ge pl path i))"


section \<open>A planar engine and sample geometries\<close>

text \<open>
  The statements below hold for every engine. Their instances need one: \<open>planarEngine\<close>
  measures in the plane (Euclidean length, the signed area of the surveyor's formula, which
  is positive for a clockwise ring) and offsets a line by shifting it along the x axis, which
  is the parallel line of a centerline that runs north.
\<close>

fun pathLength :: "point list \<Rightarrow> real" where
  "pathLength (p # q # ps) =
     sqrt ((fst q - fst p)\<^sup>2 + (snd q - snd p)\<^sup>2) + pathLength (q # ps)"
| "pathLength ps = 0"

fun shoelace :: "point list \<Rightarrow> real" where
  "shoelace (p # q # ps) = (fst q * snd p - fst p * snd q) / 2 + shoelace (q # ps)"
| "shoelace ps = 0"

definition definedPoints :: "point option list \<Rightarrow> point list" where
  "definedPoints ring = List.map_filter (\<lambda>e. e) ring"

definition planarEngine :: geometryEngine where
  "planarEngine =
     \<lparr>offset = (\<lambda>pl d unit joinType.
        case js_nth (paths pl) 0 of
          None \<Rightarrow> None
        | Some path \<Rightarrow>
            if length path < 2 then None
            else Some \<lparr>paths = [map (\<lambda>p. (fst p + d, snd p)) path],
                       spatialReference = spatialReference pl\<rparr>),
      geodesicLength = (\<lambda>g unit.
        case g of
          PolylineG pl \<Rightarrow> sum_list (map pathLength (paths pl))
        | PolygonG pg \<Rightarrow> sum_list (map (\<lambda>r. pathLength (definedPoints r)) (rings pg))),
      geodesicArea = (\<lambda>pg unit. sum_list (map (\<lambda>r. shoelace (definedPoints r)) (rings pg)))\<rparr>"

definition straightLine :: polyline where
  "straightLine = \<lparr>paths = [[(0, 0), (0, 100)]], spatialReference = 3857\<rparr>"

definition rightAngleLine :: polyline where
  "rightAngleLine = \<lparr>paths = [[(0, 0), (0, 100), (100, 100)]], spatialReference = 3857\<rparr>"

definition uTurnLine :: polyline where
  "uTurnLine = \<lparr>paths = [[(0, 100), (0, 0), (0, 100)]], spatialReference = 3857\<rparr>"



definition shortLine :: polyline where
  "shortLine = \<lparr>paths = [[(0, 0)]], spatialReference = 3857\<rparr>"

text \<open>The unit square, walked counter-clockwise and clockwise.\<close>

definition ccwSquare :: polygon where
  "ccwSquare =
     \<lparr>rings = [[Some (0, 0), Some (1, 0), Some (1, 1), Some (0, 1), Some (0, 0)]],
      polygonSpatialReference = 3857\<rparr>"

definition cwSquare :: polygon where
  "cwSquare =
     \<lparr>rings = [[Some (0, 0), Some (0, 1), Some (1, 1), Some (1, 0), Some (0, 0)]],
      polygonSpatialReference = 3857\<rparr>"

text \<open>
  Two more engines, which differ from \<open>planarEngine\<close> in \<open>offset\<close> only.
  \<open>densifyingEngine\<close> returns the same parallel line with one more vertex, the midpoint
  of its first segment. \<open>emptyLineEngine\<close> returns a line that has no path.
\<close>

fun densify :: "point list \<Rightarrow> point list" where
  "densify (p # q # ps) = p # ((fst p + fst q) / 2, (snd p + snd q) / 2) # q # ps"
| "densify ps = ps"

definition densifyingEngine :: geometryEngine where
  "densifyingEngine =
     planarEngine\<lparr>offset := (\<lambda>pl d unit joinType.
        case offset planarEngine pl d unit joinType of
          None \<Rightarrow> None
        | Some shifted \<Rightarrow> Some (shifted\<lparr>paths := map densify (paths shifted)\<rparr>))\<rparr>"


definition emptyLineEngine :: geometryEngine where
  "emptyLineEngine =
     planarEngine\<lparr>offset := (\<lambda>pl d unit joinType.
        Some \<lparr>paths = [], spatialReference = spatialReference pl\<rparr>)\<rparr>"

section \<open>The deflection as the specification words it\<close>

text \<open>
  The specification's signed deflection is "outgoing minus incoming normalized into
  \<open>(-180, 180]\<close>": the one value of that interval that differs from the difference by a
  multiple of 360. Its classification: "Straight" up to 1 degree, "Left" above 1,
  "Right" below -1. These two definitions follow the specification, to be compared with
  \<open>deflectionOf\<close> and the loop body.
\<close>

definition spec_deflection :: "real \<Rightarrow> real \<Rightarrow> real" where
  "spec_deflection incoming outgoing =
     (outgoing - incoming) - 360 * of_int \<lceil>((outgoing - incoming) - 180) / 360\<rceil>"

definition spec_bendDirection :: "real \<Rightarrow> string" where
  "spec_bendDirection deflection =
     (if \<bar>deflection\<bar> \<le> 1 then ''Straight''
      else if deflection > 1 then ''Left''
      else ''Right'')"

section \<open>The loop, pass by pass\<close>

lemma analyticsLoop_length:
  "length (analyticsLoop ge pl path i c vs) = length vs + (length path - i)"
proof (induction ge pl path i c vs rule: analyticsLoop.induct)
  case (1 ge pl path i c vs)
  show ?case
  proof (cases "i < length path")
    case True
    with 1 show ?thesis by (subst analyticsLoop.simps) simp
  next
    case False
    then show ?thesis by (subst analyticsLoop.simps) simp
  qed
qed

lemma analyticsLoop_nth_old:
  "k < length vs \<Longrightarrow> analyticsLoop ge pl path i c vs ! k = vs ! k"
proof (induction ge pl path i c vs rule: analyticsLoop.induct)
  case (1 ge pl path i c vs)
  show ?case
  proof (cases "i < length path")
    case True
    with 1 show ?thesis by (subst analyticsLoop.simps) (simp add: nth_append)
  next
    case False
    then show ?thesis by (subst analyticsLoop.simps) simp
  qed
qed

lemma analyticsLoop_nth_new:
  "length vs = i \<Longrightarrow> c = cumulativeAt ge pl path i \<Longrightarrow> i \<le> k \<Longrightarrow> k < length path \<Longrightarrow>
   analyticsLoop ge pl path i c vs ! k = fst (vertexAt ge pl path k (cumulativeAt ge pl path k))"
proof (induction ge pl path i c vs rule: analyticsLoop.induct)
  case (1 ge pl path i c vs)
  from 1 have lt: "i < length path" by simp
  show ?case
  proof (cases "k = i")
    case True
    have "analyticsLoop ge pl path i c vs ! k =
          (vs @ [fst (vertexAt ge pl path i c)]) ! k"
      using lt True "1.prems"(1)
      by (subst analyticsLoop.simps) (simp add: analyticsLoop_nth_old)
    then show ?thesis using True "1.prems" by (simp add: nth_append)
  next
    case False
    with "1.prems" have "i + 1 \<le> k" by simp
    then have "analyticsLoop ge pl path (i + 1) (snd (vertexAt ge pl path i c))
                 (vs @ [fst (vertexAt ge pl path i c)]) ! k =
               fst (vertexAt ge pl path k (cumulativeAt ge pl path k))"
      using "1.IH"[OF lt] "1.prems" by simp
    then show ?thesis using lt by (subst analyticsLoop.simps) simp
  qed
qed

lemma computeVertexAnalytics_length:
  "js_nth (paths pl) 0 = Some path \<Longrightarrow> 2 \<le> length path \<Longrightarrow>
   length (computeVertexAnalytics ge pl) = length path"
  by (simp add: computeVertexAnalytics_def analyticsLoop_length)

lemma computeVertexAnalytics_nth:
  "js_nth (paths pl) 0 = Some path \<Longrightarrow> 2 \<le> length path \<Longrightarrow> k < length path \<Longrightarrow>
   computeVertexAnalytics ge pl ! k = fst (vertexAt ge pl path k (cumulativeAt ge pl path k))"
  by (simp add: computeVertexAnalytics_def analyticsLoop_nth_new)



lemma vertexAt_bearing:
  "bearing (fst (vertexAt ge pl path i c)) =
     (if i + 1 < length path
      then azimuth (fst (path ! (i + 1)) - fst (path ! i)) (snd (path ! (i + 1)) - snd (path ! i))
      else 0)"
  by (simp add: vertexAt_def Let_def js_nth_def split: prod.splits option.splits)

lemma vertexAt_bend_first:
  "bendAngle (fst (vertexAt ge pl path 0 c)) = 0 \<and>
   bendDirection (fst (vertexAt ge pl path 0 c)) = ''Start''"
  by (simp add: vertexAt_def Let_def js_nth_def split: prod.splits option.splits)

lemma vertexAt_bend_last:
  "0 < i \<Longrightarrow> i + 1 = length path \<Longrightarrow>
   bendAngle (fst (vertexAt ge pl path i c)) = 0 \<and>
   bendDirection (fst (vertexAt ge pl path i c)) = ''End''"
  by (simp add: vertexAt_def Let_def js_nth_def split: prod.splits option.splits)

lemma vertexAt_bend_interior:
  "0 < i \<Longrightarrow> i + 1 < length path \<Longrightarrow>
   d = deflectionOf (azimuth (fst (path ! i) - fst (path ! (i - 1))) (snd (path ! i) - snd (path ! (i - 1))))
                    (azimuth (fst (path ! (i + 1)) - fst (path ! i)) (snd (path ! (i + 1)) - snd (path ! i))) \<Longrightarrow>
   bendAngle (fst (vertexAt ge pl path i c)) = \<bar>d\<bar> \<and>
   bendDirection (fst (vertexAt ge pl path i c)) =
     (if \<bar>d\<bar> > 1 then (if d > 0 then ''Left'' else ''Right'') else ''Straight'')"
  by (simp add: vertexAt_def Let_def js_nth_def split: prod.splits option.splits)

section \<open>Facts about the planar engine\<close>

lemma straightLine_path: "js_nth (paths straightLine) 0 = Some [(0, 0), (0, 100)]"
  by (simp add: js_nth_def straightLine_def)


section \<open>Short and two-vertex centerlines\<close>

text \<open>
  C9. A centerline without a first path, or whose first path has fewer than two points,
  yields the empty list of records. The function returns a plain list: it has no failing
  branch.
\<close>

theorem computeVertexAnalytics_short_path_empty:
  "js_nth (paths pl) 0 = None \<or> (\<exists>path. js_nth (paths pl) 0 = Some path \<and> length path < 2)
   \<Longrightarrow> computeVertexAnalytics ge pl = []"
  by (auto simp: computeVertexAnalytics_def)

theorem computeVertexAnalytics_short_path_empty_witness:
  "computeVertexAnalytics planarEngine \<lparr>paths = [], spatialReference = 3857\<rparr> = [] \<and>
   computeVertexAnalytics planarEngine \<lparr>paths = [[]], spatialReference = 3857\<rparr> = [] \<and>
   computeVertexAnalytics planarEngine \<lparr>paths = [[(5, 7)]], spatialReference = 3857\<rparr> = []"
proof -
  have a: "js_nth (paths \<lparr>paths = [], spatialReference = 3857\<rparr>) 0 = None"
    by (simp add: js_nth_def)
  have b: "\<exists>path. js_nth (paths \<lparr>paths = [[]], spatialReference = 3857\<rparr>) 0 = Some path
             \<and> length path < 2"
    by (simp add: js_nth_def)
  have c: "\<exists>path. js_nth (paths \<lparr>paths = [[(5, 7)]], spatialReference = 3857\<rparr>) 0 = Some path
             \<and> length path < 2"
    by (simp add: js_nth_def)
  show ?thesis
    using computeVertexAnalytics_short_path_empty
            [of "\<lparr>paths = [], spatialReference = 3857\<rparr>" planarEngine]
      computeVertexAnalytics_short_path_empty
            [of "\<lparr>paths = [[]], spatialReference = 3857\<rparr>" planarEngine]
      computeVertexAnalytics_short_path_empty
            [of "\<lparr>paths = [[(5, 7)]], spatialReference = 3857\<rparr>" planarEngine]
      a b c
    by blast
qed

text \<open>
  C10. With exactly two vertices the record at index 0 is labelled "Start" and the record
  at index 1 "End", both with bend angle 0: the test \<open>i === 0\<close> comes first.
\<close>

theorem two_vertices_start_then_end:
  assumes "js_nth (paths pl) 0 = Some [p, q]"
  shows "length (computeVertexAnalytics ge pl) = 2 \<and>
         bendDirection (computeVertexAnalytics ge pl ! 0) = ''Start'' \<and>
         bendAngle (computeVertexAnalytics ge pl ! 0) = 0 \<and>
         bendDirection (computeVertexAnalytics ge pl ! 1) = ''End'' \<and>
         bendAngle (computeVertexAnalytics ge pl ! 1) = 0"
proof -
  have len: "2 \<le> length [p, q]" by simp
  have n0: "computeVertexAnalytics ge pl ! 0
            = fst (vertexAt ge pl [p, q] 0 (cumulativeAt ge pl [p, q] 0))"
    by (rule computeVertexAnalytics_nth [OF assms len]) simp
  have n1: "computeVertexAnalytics ge pl ! 1
            = fst (vertexAt ge pl [p, q] 1 (cumulativeAt ge pl [p, q] 1))"
    by (rule computeVertexAnalytics_nth [OF assms len]) simp
  have l: "length (computeVertexAnalytics ge pl) = 2"
    using computeVertexAnalytics_length [OF assms len] by simp
  have last: "bendAngle (fst (vertexAt ge pl [p, q] 1 (cumulativeAt ge pl [p, q] 1))) = 0 \<and>
     bendDirection (fst (vertexAt ge pl [p, q] 1 (cumulativeAt ge pl [p, q] 1))) = ''End''"
    by (rule vertexAt_bend_last) simp_all
  show ?thesis
    unfolding n0 n1 using l last vertexAt_bend_first [of ge pl "[p, q]"] by simp
qed

theorem two_vertices_start_then_end_witness:
  "length (computeVertexAnalytics planarEngine straightLine) = 2 \<and>
   bendDirection (computeVertexAnalytics planarEngine straightLine ! 0) = ''Start'' \<and>
   bendAngle (computeVertexAnalytics planarEngine straightLine ! 0) = 0 \<and>
   bendDirection (computeVertexAnalytics planarEngine straightLine ! 1) = ''End'' \<and>
   bendAngle (computeVertexAnalytics planarEngine straightLine ! 1) = 0"
proof -
  have "js_nth (paths straightLine) 0 = Some [(0, 0), (0, 100)]"
    by (simp add: js_nth_def straightLine_def)
  then show ?thesis by (rule two_vertices_start_then_end)
qed

section \<open>Bearings\<close>

lemma Math_atan2_bounds: "- pi \<le> Math_atan2 y x \<and> Math_atan2 y x \<le> pi"
proof -
  have b: "- (pi / 2) < arctan (y / x)" "arctan (y / x) < pi / 2"
    by (rule arctan_lbound, rule arctan_ubound)
  have p: "0 < pi" by (rule pi_gt_zero)
  consider "0 < x" | "x < 0" "0 \<le> y" | "x < 0" "y < 0" | "x = 0"
    by linarith
  then show ?thesis
  proof cases
    case 1
    then show ?thesis using b p by (simp add: Math_atan2_def)
  next
    case 2
    then have "y / x \<le> 0" by (simp add: divide_nonneg_neg)
    then have "arctan (y / x) \<le> 0" by simp
    then show ?thesis using 2 b p by (simp add: Math_atan2_def)
  next
    case 3
    then have "0 < y / x" by (simp add: divide_neg_neg)
    then have "0 < arctan (y / x)" by simp
    then show ?thesis using 3 b p by (simp add: Math_atan2_def)
  next
    case 4
    have "Math_atan2 y x = pi / 2 \<or> Math_atan2 y x = - (pi / 2) \<or> Math_atan2 y x = 0"
      using 4 by (simp add: Math_atan2_def)
    then show ?thesis using p by linarith
  qed
qed

lemma degrees_bounds:
  "- 180 \<le> Math_atan2 y x * 180 / pi \<and> Math_atan2 y x * 180 / pi \<le> 180"
proof -
  have p: "0 < pi" by (rule pi_gt_zero)
  from Math_atan2_bounds [of y x] have "- pi \<le> Math_atan2 y x" "Math_atan2 y x \<le> pi"
    by simp_all
  then show ?thesis using p by (simp add: field_simps)
qed

lemma js_rem_360:
  assumes "0 \<le> a" "a < 720"
  shows "js_rem a 360 = (if a < 360 then a else a - 360)"
proof (cases "a < 360")
  case True
  with assms have "\<lfloor>a / 360\<rfloor> = 0" by (simp add: floor_eq_iff)
  with assms True show ?thesis by (simp add: js_rem_def)
next
  case False
  with assms have "\<lfloor>a / 360\<rfloor> = 1" by (simp add: floor_eq_iff)
  with assms False show ?thesis by (simp add: js_rem_def)
qed

lemma azimuth_eq:
  "azimuth dx dy =
     (if Math_atan2 dx dy * 180 / pi < 0 then Math_atan2 dx dy * 180 / pi + 360
      else Math_atan2 dx dy * 180 / pi)"
proof -
  from degrees_bounds [of dx dy]
  have b: "- 180 \<le> Math_atan2 dx dy * 180 / pi" "Math_atan2 dx dy * 180 / pi \<le> 180"
    by simp_all
  then have "js_rem (Math_atan2 dx dy * 180 / pi + 360) 360 =
    (if Math_atan2 dx dy * 180 / pi + 360 < 360 then Math_atan2 dx dy * 180 / pi + 360
     else Math_atan2 dx dy * 180 / pi + 360 - 360)"
    by (intro js_rem_360) linarith+
  then show ?thesis by (simp add: azimuth_def)
qed

lemma azimuth_range: "0 \<le> azimuth dx dy \<and> azimuth dx dy < 360"
  using degrees_bounds [of dx dy] by (simp add: azimuth_eq)

text \<open>
  C7. Every bearing lies in \<open>[0, 360)\<close>. At a vertex with a next vertex it is the
  angle \<open>atan2(dx, dy)\<close> of the step to the next vertex, in degrees, moved up by 360
  when negative; at the last vertex it is 0.
\<close>
theorem bearings_normalised:
  assumes "js_nth (paths pl) 0 = Some path" and "2 \<le> length path"
    and "i < length path"
  shows "0 \<le> bearing (computeVertexAnalytics ge pl ! i) \<and>
         bearing (computeVertexAnalytics ge pl ! i) < 360 \<and>
         (i + 1 < length path \<longrightarrow>
            bearing (computeVertexAnalytics ge pl ! i) =
              (let dx = fst (path ! (i + 1)) - fst (path ! i);
                   dy = snd (path ! (i + 1)) - snd (path ! i);
                   degrees = Math_atan2 dx dy * 180 / pi
               in if degrees < 0 then degrees + 360 else degrees)) \<and>
         (i + 1 = length path \<longrightarrow> bearing (computeVertexAnalytics ge pl ! i) = 0)"
proof -
  have n: "computeVertexAnalytics ge pl ! i
           = fst (vertexAt ge pl path i (cumulativeAt ge pl path i))"
    by (rule computeVertexAnalytics_nth [OF assms])
  show ?thesis
    unfolding n vertexAt_bearing
    using azimuth_range [of "fst (path ! (i + 1)) - fst (path ! i)"
                            "snd (path ! (i + 1)) - snd (path ! i)"]
    by (simp add: azimuth_eq Let_def)
qed

lemma azimuth_north: "azimuth 0 100 = 0"
  by (simp add: azimuth_def Math_atan2_def js_rem_def)

lemma azimuth_east: "azimuth 100 0 = 90"
  by (simp add: azimuth_def Math_atan2_def js_rem_def)

lemma azimuth_south: "azimuth 0 (- 100) = 180"
  by (simp add: azimuth_def Math_atan2_def js_rem_def)

lemma rightAngleLine_path:
  "js_nth (paths rightAngleLine) 0 = Some [(0, 0), (0, 100), (100, 100)]"
  by (simp add: js_nth_def rightAngleLine_def)

theorem bearings_normalised_witness:
  "bearing (computeVertexAnalytics planarEngine rightAngleLine ! 0) = 0 \<and>
   bearing (computeVertexAnalytics planarEngine rightAngleLine ! 1) = 90 \<and>
   bearing (computeVertexAnalytics planarEngine rightAngleLine ! 2) = 0"
proof -
  have len: "2 \<le> length [(0, 0), (0, 100), (100, 100 :: real) :: point]" by simp
  have d0: "Math_atan2 0 100 * 180 / pi = 0" by (simp add: Math_atan2_def)
  have d1: "Math_atan2 100 0 * 180 / pi = 90" by (simp add: Math_atan2_def)
  have b0: "bearing (computeVertexAnalytics planarEngine rightAngleLine ! 0) = 0"
    using bearings_normalised [OF rightAngleLine_path len, of 0 planarEngine] d0
    by simp
  have b1: "bearing (computeVertexAnalytics planarEngine rightAngleLine ! 1) = 90"
    using bearings_normalised [OF rightAngleLine_path len, of 1 planarEngine] d1
    by simp
  have b2: "bearing (computeVertexAnalytics planarEngine rightAngleLine ! 2) = 0"
    using bearings_normalised [OF rightAngleLine_path len, of 2 planarEngine]
    by simp
  show ?thesis using b0 b1 b2 by simp
qed

section \<open>Distances along the centerline\<close>

























section \<open>Bends\<close>

lemma deflectionOf_cases:
  "deflectionOf b1 b2 =
     (if b2 - b1 > 180 then b2 - b1 - 360
      else if b2 - b1 < - 180 then b2 - b1 + 360
      else b2 - b1)"
  by (simp add: deflectionOf_def Let_def)

lemma spec_deflection_cases:
  assumes "- 360 < b2 - b1" and "b2 - b1 < 360"
  shows "spec_deflection b1 b2 =
     (if b2 - b1 > 180 then b2 - b1 - 360
      else if b2 - b1 \<le> - 180 then b2 - b1 + 360
      else b2 - b1)"
proof -
  consider "b2 - b1 > 180" | "b2 - b1 \<le> - 180" | "- 180 < b2 - b1" "b2 - b1 \<le> 180"
    by linarith
  then show ?thesis
  proof cases
    case 1
    with assms have "\<lceil>((b2 - b1) - 180) / 360\<rceil> = 1" by (simp add: ceiling_eq_iff)
    with 1 show ?thesis by (simp add: spec_deflection_def)
  next
    case 2
    with assms have "\<lceil>((b2 - b1) - 180) / 360\<rceil> = - 1" by (simp add: ceiling_eq_iff)
    with 2 show ?thesis by (simp add: spec_deflection_def)
  next
    case 3
    then have "\<lceil>((b2 - b1) - 180) / 360\<rceil> = 0" by (simp add: ceiling_eq_iff)
    with 3 show ?thesis by (simp add: spec_deflection_def)
  qed
qed

lemma uTurnLine_path: "js_nth (paths uTurnLine) 0 = Some [(0, 100), (0, 0), (0, 100)]"
  by (simp add: js_nth_def uTurnLine_def)

text \<open>
  C1. The centerline \<open>[(0,0), (0,100), (100,100)]\<close> runs north, then east: a clockwise
  turn of 90 degrees. The record of the middle vertex has bend angle 90, and the loop body
  gives it the direction "Left", since the deflection 90 - 0 is positive.
\<close>
theorem right_angle_bend_is_labelled_left:
  "bendDirection (computeVertexAnalytics ge rightAngleLine ! 1) = ''Left'' \<and>
   bendAngle (computeVertexAnalytics ge rightAngleLine ! 1) = 90"
proof -
  let ?path = "[(0, 0), (0, 100), (100, 100 :: real) :: point]"
  have n: "computeVertexAnalytics ge rightAngleLine ! 1
           = fst (vertexAt ge rightAngleLine ?path 1 (cumulativeAt ge rightAngleLine ?path 1))"
    by (rule computeVertexAnalytics_nth [OF rightAngleLine_path]) simp_all
  have d: "(90::real) = deflectionOf
             (azimuth (fst (?path ! 1) - fst (?path ! (1 - 1))) (snd (?path ! 1) - snd (?path ! (1 - 1))))
             (azimuth (fst (?path ! (1 + 1)) - fst (?path ! 1)) (snd (?path ! (1 + 1)) - snd (?path ! 1)))"
    by (simp add: azimuth_north azimuth_east deflectionOf_cases)
  have "bendAngle (fst (vertexAt ge rightAngleLine ?path 1 (cumulativeAt ge rightAngleLine ?path 1))) = \<bar>90\<bar> \<and>
        bendDirection (fst (vertexAt ge rightAngleLine ?path 1 (cumulativeAt ge rightAngleLine ?path 1))) =
          (if \<bar>90::real\<bar> > 1 then (if (90::real) > 0 then ''Left'' else ''Right'') else ''Straight'')"
    by (rule vertexAt_bend_interior [OF _ _ d]) simp_all
  then show ?thesis unfolding n by simp
qed

text \<open>
  C6. At an interior vertex the deflection is the outgoing bearing less the incoming one,
  brought into \<open>[-180, 180]\<close>: it is the specification's value in \<open>(-180, 180]\<close> except
  when the difference is exactly -180, which stays -180. The direction is "Straight" when
  the deflection is at most 1 in absolute value, "Left" above 1, "Right" below -1; the
  bend angle is the absolute value of the deflection and lies in \<open>[0, 180]\<close>.
\<close>
theorem interior_bend_classification:
  assumes "js_nth (paths pl) 0 = Some path" and "0 < i" and "i + 1 < length path"
    and "incoming = azimuth (fst (path ! i) - fst (path ! (i - 1)))
                            (snd (path ! i) - snd (path ! (i - 1)))"
    and "outgoing = azimuth (fst (path ! (i + 1)) - fst (path ! i))
                            (snd (path ! (i + 1)) - snd (path ! i))"
    and "deflection = deflectionOf incoming outgoing"
    and "v = computeVertexAnalytics ge pl ! i"
  shows "- 180 \<le> deflection \<and> deflection \<le> 180 \<and>
         deflection = (if outgoing - incoming = - 180 then - 180
                       else spec_deflection incoming outgoing) \<and>
         bendDirection v = spec_bendDirection deflection \<and>
         (\<bar>deflection\<bar> \<le> 1 \<longrightarrow> bendDirection v = ''Straight'') \<and>
         (deflection > 1 \<longrightarrow> bendDirection v = ''Left'') \<and>
         (deflection < - 1 \<longrightarrow> bendDirection v = ''Right'') \<and>
         bendAngle v = \<bar>deflection\<bar> \<and> 0 \<le> bendAngle v \<and> bendAngle v \<le> 180"
proof -
  have len: "2 \<le> length path" and il: "i < length path" using assms(2,3) by simp_all
  have n: "v = fst (vertexAt ge pl path i (cumulativeAt ge pl path i))"
    unfolding assms(7) by (rule computeVertexAnalytics_nth [OF assms(1) len il])
  have r1: "0 \<le> incoming" "incoming < 360" "0 \<le> outgoing" "outgoing < 360"
    using azimuth_range unfolding assms(4,5) by simp_all
  then have diff: "- 360 < outgoing - incoming" "outgoing - incoming < 360" by linarith+
  have range: "- 180 \<le> deflection \<and> deflection \<le> 180"
    unfolding assms(6) deflectionOf_cases using diff by simp
  have norm: "deflection = (if outgoing - incoming = - 180 then - 180
                            else spec_deflection incoming outgoing)"
    unfolding assms(6) deflectionOf_cases spec_deflection_cases [OF diff] by simp
  have d: "deflection = deflectionOf
             (azimuth (fst (path ! i) - fst (path ! (i - 1))) (snd (path ! i) - snd (path ! (i - 1))))
             (azimuth (fst (path ! (i + 1)) - fst (path ! i)) (snd (path ! (i + 1)) - snd (path ! i)))"
    unfolding assms(6) assms(4) assms(5) by (rule refl)
  have b: "bendAngle v = \<bar>deflection\<bar> \<and>
           bendDirection v =
             (if \<bar>deflection\<bar> > 1 then (if deflection > 0 then ''Left'' else ''Right'')
              else ''Straight'')"
    unfolding n by (rule vertexAt_bend_interior [OF assms(2,3) d])
  then have dir: "bendDirection v = spec_bendDirection deflection"
    by (simp add: spec_bendDirection_def)
  have cls: "(\<bar>deflection\<bar> \<le> 1 \<longrightarrow> bendDirection v = ''Straight'') \<and>
         (deflection > 1 \<longrightarrow> bendDirection v = ''Left'') \<and>
         (deflection < - 1 \<longrightarrow> bendDirection v = ''Right'')"
    using b by simp
  have ang: "bendAngle v = \<bar>deflection\<bar> \<and> 0 \<le> bendAngle v \<and> bendAngle v \<le> 180"
  proof -
    from range have "\<bar>deflection\<bar> \<le> 180" by linarith
    then show ?thesis using b by simp
  qed
  show ?thesis using range norm dir cls ang by blast
qed

theorem interior_bend_classification_witness:
  "deflectionOf (azimuth 0 100) (azimuth 100 0) = 90 \<and>
   spec_deflection (azimuth 0 100) (azimuth 100 0) = 90 \<and>
   bendDirection (computeVertexAnalytics planarEngine rightAngleLine ! 1) = ''Left'' \<and>
   bendAngle (computeVertexAnalytics planarEngine rightAngleLine ! 1) = 90"
proof -
  let ?path = "[(0, 0), (0, 100), (100, 100 :: real) :: point]"
  have i0: "(0::nat) < 1" and i1: "(1::nat) + 1 < length ?path" by simp_all
  note t = interior_bend_classification
             [OF rightAngleLine_path i0 i1 refl refl refl refl, of planarEngine]
  have d: "deflectionOf (azimuth 0 100) (azimuth 100 0) = 90"
    by (simp add: azimuth_north azimuth_east deflectionOf_cases)
  from t d show ?thesis
    by (simp add: spec_bendDirection_def azimuth_north azimuth_east)
qed

text \<open>
  The centerline \<open>[(0,100), (0,0), (0,100)]\<close> turns back on itself: incoming bearing 180,
  outgoing bearing 0. Normalized into \<open>(-180, 180]\<close> the deflection is 180, which the
  classification calls "Left"; the loop body keeps -180 and reports "Right".
\<close>

theorem u_turn_deflection_counterexample:
  "spec_deflection (azimuth (0 - 0) (0 - 100)) (azimuth (0 - 0) (100 - 0)) = 180 \<and>
   spec_bendDirection (spec_deflection (azimuth (0 - 0) (0 - 100)) (azimuth (0 - 0) (100 - 0)))
     = ''Left'' \<and>
   deflectionOf (azimuth (0 - 0) (0 - 100)) (azimuth (0 - 0) (100 - 0)) = - 180 \<and>
   bendDirection (computeVertexAnalytics planarEngine uTurnLine ! 1) = ''Right'' \<and>
   bendAngle (computeVertexAnalytics planarEngine uTurnLine ! 1) = 180"
proof -
  let ?path = "[(0, 100), (0, 0), (0, 100 :: real) :: point]"
  let ?v = "fst (vertexAt planarEngine uTurnLine ?path 1
                   (cumulativeAt planarEngine uTurnLine ?path 1))"
  have n: "computeVertexAnalytics planarEngine uTurnLine ! 1 = ?v"
    by (rule computeVertexAnalytics_nth [OF uTurnLine_path]) simp_all
  have s: "spec_deflection 180 0 = 180"
    by (simp add: spec_deflection_def)
  have c: "deflectionOf 180 0 = - 180"
    by (simp add: deflectionOf_cases)
  have d: "(- 180::real) = deflectionOf
             (azimuth (fst (?path ! 1) - fst (?path ! (1 - 1))) (snd (?path ! 1) - snd (?path ! (1 - 1))))
             (azimuth (fst (?path ! (1 + 1)) - fst (?path ! 1)) (snd (?path ! (1 + 1)) - snd (?path ! 1)))"
    by (simp add: azimuth_north azimuth_south c)
  have "bendAngle ?v = \<bar>- 180\<bar> \<and>
        bendDirection ?v =
          (if \<bar>- 180::real\<bar> > 1 then (if (- 180::real) > 0 then ''Left'' else ''Right'')
           else ''Straight'')"
    by (rule vertexAt_bend_interior [OF _ _ d]) simp_all
  then have "bendAngle ?v = 180 \<and> bendDirection ?v = ''Right''" by simp
  then show ?thesis
    unfolding n by (simp add: azimuth_north azimuth_south s c spec_bendDirection_def)
qed

section \<open>Degrees, minutes, seconds\<close>

lemma dmsParts_truncates:
  "dmsParts decimal = (degrees, minutes, seconds) \<Longrightarrow>
   degrees = \<lfloor>decimal\<rfloor> \<and> 0 \<le> minutes \<and> minutes \<le> 59 \<and> 0 \<le> seconds \<and> seconds \<le> 59 \<and>
   of_int degrees + of_int minutes / 60 + of_int seconds / 3600 \<le> decimal \<and>
   decimal < of_int degrees + of_int minutes / 60 + (of_int seconds + 1) / 3600"
proof -
  assume a: "dmsParts decimal = (degrees, minutes, seconds)"
  define f where "f = decimal - of_int \<lfloor>decimal\<rfloor>"
  define g where "g = f * 60 - of_int \<lfloor>f * 60\<rfloor>"
  have "(\<lfloor>decimal\<rfloor>, \<lfloor>f * 60\<rfloor>, \<lfloor>g * 60\<rfloor>) = (degrees, minutes, seconds)"
    using a unfolding dmsParts_def Let_def f_def g_def .
  then have dg: "degrees = \<lfloor>decimal\<rfloor>" and mn: "minutes = \<lfloor>f * 60\<rfloor>"
    and sc: "seconds = \<lfloor>g * 60\<rfloor>"
    by (simp_all only: prod.inject)
  have f: "0 \<le> f" "f < 1" unfolding f_def by linarith+
  have g: "0 \<le> g" "g < 1" unfolding g_def by linarith+
  have m0: "0 \<le> minutes" unfolding mn using f by simp
  have "f * 60 < 60" using f by simp
  then have m1: "minutes \<le> 59" unfolding mn by (simp add: floor_le_iff)
  have s0: "0 \<le> seconds" unfolding sc using g by simp
  have "g * 60 < 60" using g by simp
  then have s1: "seconds \<le> 59" unfolding sc by (simp add: floor_le_iff)
  have sb: "of_int seconds \<le> g * 60" "g * 60 < of_int seconds + 1"
    unfolding sc by linarith+
  have "g = f * 60 - of_int minutes" unfolding mn g_def by (rule refl)
  moreover have "f = decimal - of_int degrees" unfolding dg f_def by (rule refl)
  ultimately have dec: "decimal = of_int degrees + of_int minutes / 60 + g / 60"
    by (simp add: field_simps)
  have lo: "of_int degrees + of_int minutes / 60 + of_int seconds / 3600 \<le> decimal"
    using sb(1) unfolding dec by simp
  have hi: "decimal < of_int degrees + of_int minutes / 60 + (of_int seconds + 1) / 3600"
    using sb(2) unfolding dec by simp
  show ?thesis using dg m0 m1 s0 s1 lo hi by simp
qed

lemma dmsParts_45_5: "dmsParts (45.5) = (45, 30, 0)"
  by (simp add: dmsParts_def Let_def)

text \<open>
  C3. The three parts are floors: 45.5 gives 45, 30 and 0, and 45.9999 gives 45, 59 and 59,
  not 46. The string for 45.5 is \<open>45\<close>, then the two characters U+00C2 U+00B0 of the
  template literal, then \<open> 30' 0"\<close>: it is not the string with the degree sign alone.
\<close>
theorem decimalToDMS_45_5:
  "dmsParts (45.5) = (45, 30, 0) \<and>
   dmsParts (45.9999) = (45, 59, 59) \<and>
   decimalToDMS (45.5) =
     ''45'' @ [CHR 0xC2, CHR 0xB0] @ '' 30'' @ [CHR 0x27] @ '' 0'' @ [CHR 0x22] \<and>
   decimalToDMS (45.5) \<noteq>
     ''45'' @ [CHR 0xB0] @ '' 30'' @ [CHR 0x27] @ '' 0'' @ [CHR 0x22]"
proof -
  have p: "dmsParts (45.9999) = (45, 59, 59)"
    by (simp add: dmsParts_def Let_def)
  have s: "decimalToDMS (45.5) =
     ''45'' @ [CHR 0xC2, CHR 0xB0] @ '' 30'' @ [CHR 0x27] @ '' 0'' @ [CHR 0x22]"
    unfolding decimalToDMS_def dmsParts_45_5
    by (simp add: numberToString_def natDigits.simps digitChar_def)
  show ?thesis using p s dmsParts_45_5 by simp
qed

section \<open>Area and perimeter\<close>

text \<open>
  C2. \<open>calculateArea\<close> and \<open>calculatePerimeter\<close> return what the engine returns for
  the polygon, unchanged: each is not negative whenever the engine's value is not negative.
\<close>
theorem measurements_are_the_engine_values:
  "calculateArea ge pg = geodesicArea ge pg ''square-meters'' \<and>
   calculatePerimeter ge pg = geodesicLength ge (PolygonG pg) ''meters'' \<and>
   (0 \<le> geodesicArea ge pg ''square-meters'' \<longrightarrow> 0 \<le> calculateArea ge pg) \<and>
   (0 \<le> geodesicLength ge (PolygonG pg) ''meters'' \<longrightarrow> 0 \<le> calculatePerimeter ge pg)"
  by (simp add: calculateArea_def calculatePerimeter_def)

lemma planar_area_cwSquare: "geodesicArea planarEngine cwSquare u = 1"
  by (simp add: planarEngine_def cwSquare_def definedPoints_def List.map_filter_simps)

lemma planar_area_ccwSquare: "geodesicArea planarEngine ccwSquare u = - 1"
  by (simp add: planarEngine_def ccwSquare_def definedPoints_def List.map_filter_simps)

lemma planar_length_cwSquare: "geodesicLength planarEngine (PolygonG cwSquare) u = 4"
  by (simp add: planarEngine_def cwSquare_def definedPoints_def List.map_filter_simps)

theorem measurements_are_the_engine_values_witness:
  "calculateArea planarEngine cwSquare = 1 \<and> calculatePerimeter planarEngine cwSquare = 4 \<and>
   0 \<le> calculateArea planarEngine cwSquare \<and> 0 \<le> calculatePerimeter planarEngine cwSquare"
  using measurements_are_the_engine_values [of planarEngine cwSquare]
  by (simp add: planar_area_cwSquare planar_length_cwSquare)

text \<open>
  With the planar engine the counter-clockwise unit square has area -1 and the clockwise one
  area 1: the result of \<open>calculateArea\<close> can be negative, and its sign follows the
  winding.
\<close>

theorem counter_clockwise_area_counterexample:
  "calculateArea planarEngine ccwSquare = - 1 \<and> calculateArea planarEngine ccwSquare < 0 \<and>
   calculateArea planarEngine cwSquare = 1"
  by (simp add: calculateArea_def planar_area_cwSquare planar_area_ccwSquare)

section \<open>The ring of the right-of-way polygon\<close>

lemma buildRowPolygon_OffsetFailure_iff:
  "buildRowPolygon ge centerline leftWidth rightWidth = Inl OffsetFailure \<longleftrightarrow>
     (offset ge centerline leftWidth ''meters'' ''miter'' = None \<or>
      offset ge centerline (- rightWidth) ''meters'' ''miter'' = None)"
  by (auto simp: buildRowPolygon_def Let_def split: option.splits)

lemma buildRowPolygon_ring:
  assumes "offset ge centerline leftWidth ''meters'' ''miter'' = Some leftOffset"
    and "offset ge centerline (- rightWidth) ''meters'' ''miter'' = Some rightOffset"
    and "js_nth (paths leftOffset) 0 = Some leftPath"
    and "js_nth (paths rightOffset) 0 = Some rightPath"
  shows "buildRowPolygon ge centerline leftWidth rightWidth =
           Inr \<lparr>rings = [map Some leftPath @ map Some (rev rightPath) @ [js_nth leftPath 0]],
                polygonSpatialReference = spatialReference centerline\<rparr>"
  using assms by (simp add: buildRowPolygon_def)

text \<open>
  C4. When both offsets return a line with a first path and the left path is not empty,
  \<open>buildRowPolygon\<close> returns a polygon with one ring and the centerline's spatial
  reference. The ring is the left path, the right path reversed, then the first point of the
  left path: its first and last entries are the same, and it has one entry more than the
  two paths together. That is \<open>2n + 1\<close> for a centerline of \<open>n\<close> vertices when each
  offset path has \<open>n\<close> points.
\<close>

theorem buildRowPolygon_closed_ring:
  assumes "offset ge centerline leftWidth ''meters'' ''miter'' = Some leftOffset"
    and "offset ge centerline (- rightWidth) ''meters'' ''miter'' = Some rightOffset"
    and "js_nth (paths leftOffset) 0 = Some leftPath"
    and "js_nth (paths rightOffset) 0 = Some rightPath"
    and "leftPath \<noteq> []"
    and "js_nth (paths centerline) 0 = Some path"
    and "ring = map Some leftPath @ map Some (rev rightPath) @ [Some (hd leftPath)]"
  shows "buildRowPolygon ge centerline leftWidth rightWidth =
           Inr \<lparr>rings = [ring], polygonSpatialReference = spatialReference centerline\<rparr> \<and>
         hd ring = last ring \<and>
         length ring = length leftPath + length rightPath + 1 \<and>
         (length leftPath = length path \<and> length rightPath = length path
            \<longrightarrow> length ring = 2 * length path + 1)"
proof -
  have "js_nth leftPath 0 = Some (hd leftPath)"
    using assms(5) by (cases leftPath) (simp_all add: js_nth_def)
  then have b: "buildRowPolygon ge centerline leftWidth rightWidth =
           Inr \<lparr>rings = [ring], polygonSpatialReference = spatialReference centerline\<rparr>"
    unfolding assms(7) using buildRowPolygon_ring [OF assms(1-4)] by simp
  have h: "hd ring = last ring"
    unfolding assms(7) using assms(5) by (cases leftPath) simp_all
  have l: "length ring = length leftPath + length rightPath + 1"
    unfolding assms(7) by simp
  show ?thesis using b h l by simp
qed

lemma straightLine_spatialReference: "spatialReference straightLine = 3857"
  by (simp add: straightLine_def)

lemma planar_offset_straightLine:
  "offset planarEngine straightLine d ''meters'' ''miter'' =
     Some \<lparr>paths = [[(d, 0), (d, 100)]], spatialReference = 3857\<rparr>"
  by (simp add: planarEngine_def straightLine_def js_nth_def)

theorem buildRowPolygon_closed_ring_witness:
  "buildRowPolygon planarEngine straightLine 10 10 =
     Inr \<lparr>rings = [[Some (10, 0), Some (10, 100), Some (- 10, 100), Some (- 10, 0),
                     Some (10, 0)]],
          polygonSpatialReference = 3857\<rparr> \<and>
   length [Some (10, 0), Some (10, 100), Some (- 10, 100), Some (- 10, 0),
           Some (10 :: real, 0 :: real)] = 2 * 2 + 1"
proof -
  have l: "offset planarEngine straightLine 10 ''meters'' ''miter'' =
             Some \<lparr>paths = [[(10, 0), (10, 100)]], spatialReference = 3857\<rparr>"
    by (rule planar_offset_straightLine)
  have r: "offset planarEngine straightLine (- 10) ''meters'' ''miter'' =
             Some \<lparr>paths = [[(- 10, 0), (- 10, 100)]], spatialReference = 3857\<rparr>"
    by (rule planar_offset_straightLine)
  have lp: "js_nth (paths \<lparr>paths = [[(10, 0), (10, 100 :: real) :: point]],
                            spatialReference = 3857\<rparr>) 0 = Some [(10, 0), (10, 100)]"
    by (simp add: js_nth_def)
  have rp: "js_nth (paths \<lparr>paths = [[(- 10, 0), (- 10, 100 :: real) :: point]],
                            spatialReference = 3857\<rparr>) 0 = Some [(- 10, 0), (- 10, 100)]"
    by (simp add: js_nth_def)
  have ne: "[(10, 0), (10, 100 :: real) :: point] \<noteq> []" by simp
  from buildRowPolygon_closed_ring [OF l r lp rp ne straightLine_path refl]
  show ?thesis by (simp add: straightLine_spatialReference)
qed

lemma densifying_offset_straightLine:
  "offset densifyingEngine straightLine d ''meters'' ''miter'' =
     Some \<lparr>paths = [[(d, 0), (d, 50), (d, 100)]], spatialReference = 3857\<rparr>"
  by (simp add: densifyingEngine_def planar_offset_straightLine)

text \<open>
  With the densifying engine both offsets of the two-vertex centerline succeed and the ring
  has 7 entries, not 5.
\<close>

theorem densified_offset_ring_counterexample:
  "offset densifyingEngine straightLine 10 ''meters'' ''miter'' =
     Some \<lparr>paths = [[(10, 0), (10, 50), (10, 100)]], spatialReference = 3857\<rparr> \<and>
   offset densifyingEngine straightLine (- 10) ''meters'' ''miter'' =
     Some \<lparr>paths = [[(- 10, 0), (- 10, 50), (- 10, 100)]], spatialReference = 3857\<rparr> \<and>
   buildRowPolygon densifyingEngine straightLine 10 10 =
     Inr \<lparr>rings = [[Some (10, 0), Some (10, 50), Some (10, 100), Some (- 10, 100),
                     Some (- 10, 50), Some (- 10, 0), Some (10, 0)]],
          polygonSpatialReference = 3857\<rparr> \<and>
   paths straightLine = [[(0, 0), (0, 100)]] \<and>
   length [Some (10, 0), Some (10, 50), Some (10, 100), Some (- 10, 100),
           Some (- 10, 50), Some (- 10, 0), Some (10 :: real, 0 :: real)] \<noteq> 2 * 2 + 1"
proof -
  have b: "buildRowPolygon densifyingEngine straightLine 10 10 =
     Inr \<lparr>rings = [[Some (10, 0), Some (10, 50), Some (10, 100), Some (- 10, 100),
                     Some (- 10, 50), Some (- 10, 0), Some (10, 0)]],
          polygonSpatialReference = 3857\<rparr>"
    by (simp add: buildRowPolygon_def densifying_offset_straightLine js_nth_def
                  straightLine_spatialReference)
  show ?thesis
    using b densifying_offset_straightLine [of 10] densifying_offset_straightLine [of "- 10"]
    by (simp add: straightLine_def)
qed

text \<open>
  C8. \<open>buildRowPolygon\<close> fails with the offset failure exactly when one of the two
  offsets returns no line. When both return a line that has at least one path, it returns a
  polygon.
\<close>
theorem buildRowPolygon_failure:
  "(buildRowPolygon ge centerline leftWidth rightWidth = Inl OffsetFailure \<longleftrightarrow>
      (offset ge centerline leftWidth ''meters'' ''miter'' = None \<or>
       offset ge centerline (- rightWidth) ''meters'' ''miter'' = None)) \<and>
   (\<forall>leftOffset rightOffset.
      offset ge centerline leftWidth ''meters'' ''miter'' = Some leftOffset \<and>
      offset ge centerline (- rightWidth) ''meters'' ''miter'' = Some rightOffset \<and>
      paths leftOffset \<noteq> [] \<and> paths rightOffset \<noteq> []
      \<longrightarrow> (\<exists>pg. buildRowPolygon ge centerline leftWidth rightWidth = Inr pg))"
proof (intro conjI allI impI)
  show "buildRowPolygon ge centerline leftWidth rightWidth = Inl OffsetFailure \<longleftrightarrow>
      (offset ge centerline leftWidth ''meters'' ''miter'' = None \<or>
       offset ge centerline (- rightWidth) ''meters'' ''miter'' = None)"
    by (rule buildRowPolygon_OffsetFailure_iff)
next
  fix leftOffset rightOffset
  assume a: "offset ge centerline leftWidth ''meters'' ''miter'' = Some leftOffset \<and>
      offset ge centerline (- rightWidth) ''meters'' ''miter'' = Some rightOffset \<and>
      paths leftOffset \<noteq> [] \<and> paths rightOffset \<noteq> []"
  then have "js_nth (paths leftOffset) 0 = Some (hd (paths leftOffset))"
    and "js_nth (paths rightOffset) 0 = Some (hd (paths rightOffset))"
    by (simp_all add: js_nth_def hd_conv_nth)
  with a show "\<exists>pg. buildRowPolygon ge centerline leftWidth rightWidth = Inr pg"
    using buildRowPolygon_ring by blast
qed

theorem buildRowPolygon_failure_witness:
  "buildRowPolygon planarEngine shortLine 10 10 = Inl OffsetFailure \<and>
   buildRowPolygon planarEngine straightLine 10 10 \<noteq> Inl OffsetFailure \<and>
   (\<exists>pg. buildRowPolygon planarEngine straightLine 10 10 = Inr pg)"
proof -
  have n: "offset planarEngine shortLine 10 ''meters'' ''miter'' = None"
    by (simp add: planarEngine_def shortLine_def js_nth_def)
  have f: "buildRowPolygon planarEngine shortLine 10 10 = Inl OffsetFailure"
    using buildRowPolygon_failure [of planarEngine shortLine 10 10] n by simp
  have l: "offset planarEngine straightLine 10 ''meters'' ''miter'' =
             Some \<lparr>paths = [[(10, 0), (10, 100)]], spatialReference = 3857\<rparr>"
    by (rule planar_offset_straightLine)
  have r: "offset planarEngine straightLine (- 10) ''meters'' ''miter'' =
             Some \<lparr>paths = [[(- 10, 0), (- 10, 100)]], spatialReference = 3857\<rparr>"
    by (rule planar_offset_straightLine)
  have g: "buildRowPolygon planarEngine straightLine 10 10 \<noteq> Inl OffsetFailure"
    using buildRowPolygon_failure [of planarEngine straightLine 10 10] l r by simp
  have e: "\<exists>pg. buildRowPolygon planarEngine straightLine 10 10 = Inr pg"
    using buildRowPolygon_failure [of planarEngine straightLine 10 10] l r by simp
  show ?thesis using f g e by simp
qed

text \<open>
  With the engine whose offset line has no path, both offsets return a line and
  \<open>buildRowPolygon\<close> raises, though not the offset failure.
\<close>

theorem offset_line_without_path_counterexample:
  "offset emptyLineEngine straightLine 10 ''meters'' ''miter'' =
     Some \<lparr>paths = [], spatialReference = 3857\<rparr> \<and>
   offset emptyLineEngine straightLine (- 10) ''meters'' ''miter'' =
     Some \<lparr>paths = [], spatialReference = 3857\<rparr> \<and>
   buildRowPolygon emptyLineEngine straightLine 10 10 = Inl TypeError"
  by (simp add: buildRowPolygon_def emptyLineEngine_def js_nth_def
                straightLine_spatialReference)

end
